theory Spec2Isabelle
  imports Complex_Main "HOL-Library.Word"
begin

unbundle bit_operations_syntax

section \<open>The elevator controller: CANModule and ElevatorController\<close>

text \<open>
  A shallow embedding of \<^verbatim>\<open>CANModule.cpp\<close> and \<^verbatim>\<open>ElevatorController.cpp\<close>.
  The two headers are not part of the sources, so the constants they define are the
  fields of a record \<open>config\<close> that every operation takes as its first argument, and
  every theorem holds for the constants whatever they are (or says what it asks of them).
\<close>

subsection \<open>Data\<close>

type_synonym byte = "8 word"
type_synonym uint16_t = "16 word"

text \<open>
  The constants of the absent headers. The floor codes are bytes (they are compared
  with \<^verbatim>\<open>rxdata[0]\<close> and stored by \<^verbatim>\<open>setTxdata(byte)\<close>); the distances are
  integer literals; \<open>A\<close>, \<open>DAMPENER\<close> and \<open>diffMax\<close> enter the damping formula as
  floating-point numbers, idealised here as reals.
\<close>

record config =
  FLOOR1 :: byte
  FLOOR2 :: byte
  FLOOR3 :: byte
  FLOOR1_SP :: int
  FLOOR2_SP :: int
  FLOOR3_SP :: int
  SETPOINT_TOLERANCE :: int
  MINHEIGHT :: int
  MAXHEIGHT :: int
  A :: real
  DAMPENER :: real
  diffMax :: real
  TxID :: "32 word"
  DLC :: byte

text \<open>
  What the controller does to its collaborators, in the order of the calls: the serial
  log, the LCD, the CAN controller and the DAC. The text that \<^verbatim>\<open>sprintf\<close> formats is
  kept as the format's name and its arguments.
\<close>

datatype serial_text =
    RxExtendedID "32 word" byte
  | RxStandardID "32 word" byte
  | RemoteRequestFrame
  | DataByte byte
  | TxData "32 word" byte
  | TxError
  | Empty

datatype event =
    SerialPrint serial_text
  | SerialPrintln serial_text
  | LcdSetCursor nat nat
  | LcdPrint string
  | LcdLoop int
  | SendMsgBuf "32 word" byte byte
  | TransferDAC int

text \<open>
  What \<^verbatim>\<open>mcp2515.readMsgBuf(&RxID, &len, rxdata)\<close> leaves in the three members it
  writes: the identifier with the library's two marker bits, the length, and the
  contents of the data buffer after the call.
\<close>

record rx_message =
  RxID :: "32 word"
  len :: byte
  rxdata :: "nat \<Rightarrow> byte"

text \<open>The answers of the collaborators during one pass of \<^verbatim>\<open>loop\<close>.\<close>

record inputs =
  readMsgBuf :: rx_message
  sendMsgBuf_ok :: bool
  getDistance :: int

text \<open>
  The members the two classes read and write. \<open>txdata0\<close> is \<^verbatim>\<open>txdata[0]\<close>, the only
  element of the array the code touches. The declaration of \<^verbatim>\<open>m_dist\<close> is in the
  absent header: it holds the sensor's reading, an integer, and the comparisons and the
  difference the code takes with it are those of the integers. \<open>trace\<close> collects the
  calls made to the collaborators, oldest first.
\<close>

record state =
  setpoint :: uint16_t
  txdata0 :: byte
  m_currentFloor :: byte
  m_dist :: int
  flagRecv :: bool
  flagTx :: bool
  trace :: "event list"

definition emit :: "event \<Rightarrow> state \<Rightarrow> state" where
  "emit e s = s\<lparr>trace := trace s @ [e]\<rparr>"

definition emits :: "event list \<Rightarrow> state \<Rightarrow> state" where
  "emits es s = s\<lparr>trace := trace s @ es\<rparr>"

subsection \<open>CANModule\<close>

definition getSetpoint :: "state \<Rightarrow> uint16_t" where
  "getSetpoint s = setpoint s"

definition setSetpoint :: "uint16_t \<Rightarrow> state \<Rightarrow> state" where
  "setSetpoint sp s = s\<lparr>setpoint := sp\<rparr>"

definition getTxdata :: "state \<Rightarrow> byte" where
  "getTxdata s = txdata0 s"

definition setTxdata :: "byte \<Rightarrow> state \<Rightarrow> state" where
  "setTxdata data s = s\<lparr>txdata0 := data\<rparr>"

text \<open>
  \<^verbatim>\<open>transmitCAN\<close>: the message is handed to the controller, then one of two lines is
  logged, by the status the controller returned (\<open>ok\<close> is \<^verbatim>\<open>sndStat == CAN_OK\<close>).
\<close>

definition transmitCAN :: "config \<Rightarrow> bool \<Rightarrow> state \<Rightarrow> state" where
  "transmitCAN c ok s =
     (let s = emit (SendMsgBuf (TxID c) (DLC c) (txdata0 s)) s
      in emit (SerialPrintln (if ok then TxData (TxID c) (txdata0 s) else TxError)) s)"

text \<open>
  \<^verbatim>\<open>receiveCAN\<close>: the header line by the extended-identifier bit, then either the
  remote-request note or the \<open>len\<close> data bytes, then the end of the line. After the
  logging, the cursor is set and \<^verbatim>\<open>rxdata[0]\<close> is compared with the three floor codes
  in turn; the setpoint is a \<^verbatim>\<open>uint16_t\<close>, so the constant is stored modulo \<open>2^16\<close>.
\<close>

definition receiveCAN :: "config \<Rightarrow> rx_message \<Rightarrow> state \<Rightarrow> state" where
  "receiveCAN c rx s =
     (let s = emit (SerialPrint
                (if RxID rx AND 0x80000000 = 0x80000000
                 then RxExtendedID (RxID rx AND 0x1FFFFFFF) (len rx)
                 else RxStandardID (RxID rx) (len rx))) s;
          s = (if RxID rx AND 0x40000000 = 0x40000000
               then emit (SerialPrint RemoteRequestFrame) s
               else emits (map (\<lambda>i. SerialPrint (DataByte (rxdata rx i))) [0..<unat (len rx)]) s);
          s = emit (SerialPrintln Empty) s;
          s = emit (LcdSetCursor 0 0) s
      in if rxdata rx 0 = FLOOR1 c then
           emit (LcdPrint ''Floor 1'') (s\<lparr>setpoint := word_of_int (FLOOR1_SP c)\<rparr>)
         else if rxdata rx 0 = FLOOR2 c then
           emit (LcdPrint ''Floor 2'') (s\<lparr>setpoint := word_of_int (FLOOR2_SP c)\<rparr>)
         else if rxdata rx 0 = FLOOR3 c then
           emit (LcdPrint ''Floor 3'') (s\<lparr>setpoint := word_of_int (FLOOR3_SP c)\<rparr>)
         else s)"

subsection \<open>ElevatorController\<close>

text \<open>
  The conversion of a floating-point value to \<^verbatim>\<open>int\<close> drops the fraction (towards
  zero).
\<close>

definition to_int :: "real \<Rightarrow> int" where
  "to_int r = (if 0 \<le> r then \<lfloor>r\<rfloor> else \<lceil>r\<rceil>)"

text \<open>
  The damping of \<^verbatim>\<open>Move\<close>, its two statements
  \<^verbatim>\<open>a = (float)DAMPENER / (float)diffMax;\<close> and
  \<^verbatim>\<open>difference = difference * A * exp((-1) * a * abs(difference));\<close>.
  Real arithmetic stands for the floating-point arithmetic. The code computes in 32-bit
  floats, so its result can differ from this one by the rounding (by one after the
  fraction is dropped), and it divides by \<open>diffMax\<close> where a real quotient by 0 is 0
  here: the properties below use the value at the difference 0, bounds with a wide
  margin, or the damped value as it stands, and the dead band is stated for
  \<open>diffMax\<close> other than 0.
\<close>

definition damped :: "config \<Rightarrow> int \<Rightarrow> int" where
  "damped c difference =
     (let a = DAMPENER c / diffMax c
      in to_int (of_int difference * A c * exp ((- 1) * a * of_int \<bar>difference\<bar>)))"

text \<open>
  \<^verbatim>\<open>Move\<close>: \<open>reading\<close> is what \<^verbatim>\<open>DSM.sensor.getDistance()\<close> returned. Inside the
  band the distance goes to the LCD, the difference to the setpoint is taken, zeroed in
  the dead band, damped, cut at 1023 and sent to the DAC; outside the band 0 is sent.
  \<^verbatim>\<open>int\<close> is taken wide enough for the values.
\<close>

definition Move :: "config \<Rightarrow> int \<Rightarrow> uint16_t \<Rightarrow> state \<Rightarrow> state" where
  "Move c reading sp s =
     (let s = s\<lparr>m_dist := reading\<rparr> in
      if m_dist s > MINHEIGHT c \<and> m_dist s < MAXHEIGHT c then
        let s = emit (LcdLoop (m_dist s)) s;
            difference = m_dist s - uint sp;
            difference = (if \<bar>difference\<bar> \<le> SETPOINT_TOLERANCE c then 0 else difference);
            difference = damped c difference;
            difference = (if difference > 1023 then 1023 else difference)
        in emit (TransferDAC difference) s
      else emit (TransferDAC 0) s)"

definition checkCurrentFloor :: "config \<Rightarrow> state \<Rightarrow> state" where
  "checkCurrentFloor c s =
     (if m_dist s \<ge> FLOOR1_SP c - (SETPOINT_TOLERANCE c + 10)
         \<and> m_dist s \<le> FLOOR1_SP c + (SETPOINT_TOLERANCE c + 10) then
        s\<lparr>m_currentFloor := FLOOR1 c\<rparr>
      else if m_dist s \<ge> FLOOR2_SP c - (SETPOINT_TOLERANCE c + 10)
         \<and> m_dist s \<le> FLOOR2_SP c + (SETPOINT_TOLERANCE c + 10) then
        s\<lparr>m_currentFloor := FLOOR2 c\<rparr>
      else if m_dist s \<ge> FLOOR3_SP c - (SETPOINT_TOLERANCE c + 10)
         \<and> m_dist s \<le> FLOOR3_SP c + (SETPOINT_TOLERANCE c + 10) then
        s\<lparr>m_currentFloor := FLOOR3 c\<rparr>
      else s)"

text \<open>
  \<^verbatim>\<open>ElevatorController::setup\<close>, after the initialisation of the serial port, the
  buses, the timer and the sub-modules (hardware registers and the start-up lines of the
  serial log, which are left out): the default floor, its label, its setpoint, the
  unknown current floor 0 and the two flags.
\<close>

definition ElevatorController_setup :: "config \<Rightarrow> state \<Rightarrow> state" where
  "ElevatorController_setup c s =
     (let s = setTxdata (FLOOR1 c) s;
          s = emit (LcdSetCursor 0 0) s;
          s = emit (LcdPrint ''Floor 1'') s;
          s = setSetpoint (word_of_int (FLOOR1_SP c)) s
      in s\<lparr>m_currentFloor := 0, flagRecv := False, flagTx := False\<rparr>)"

text \<open>\<^verbatim>\<open>ElevatorController::loop\<close>, one pass.\<close>

definition loop :: "config \<Rightarrow> inputs \<Rightarrow> state \<Rightarrow> state" where
  "loop c inp s =
     (let s = (if flagRecv s then receiveCAN c (readMsgBuf inp) (s\<lparr>flagRecv := False\<rparr>) else s);
          s = (if flagTx s then
                 transmitCAN c (sendMsgBuf_ok inp) (setTxdata (m_currentFloor s) (s\<lparr>flagTx := False\<rparr>))
               else s);
          s = Move c (getDistance inp) (getSetpoint s) s
      in checkCurrentFloor c s)"

subsection \<open>The interrupts and the reachable states\<close>

text \<open>
  Modelled from the spec: the two interrupt handlers are not in the sources. The
  specification describes them as edge events that set a sticky flag each
  (\<^verbatim>\<open>signalReceivePending\<close> for a pending bus message, \<^verbatim>\<open>signalTransmitPending\<close>
  for the timer tick), which the control cycle reads and clears.
\<close>

definition signalReceivePending :: "state \<Rightarrow> state" where
  "signalReceivePending s = s\<lparr>flagRecv := True\<rparr>"



subsection \<open>Observations on the trace\<close>

text \<open>The values written to the DAC, oldest first.\<close>

fun dac_writes :: "event list \<Rightarrow> int list" where
  "dac_writes [] = []"
| "dac_writes (TransferDAC v # es) = v # dac_writes es"
| "dac_writes (e # es) = dac_writes es"

text \<open>What was written on the LCD: the labels and the distances, oldest first.\<close>

fun lcd_writes :: "event list \<Rightarrow> event list" where
  "lcd_writes [] = []"
| "lcd_writes (LcdPrint l # es) = LcdPrint l # lcd_writes es"
| "lcd_writes (LcdLoop d # es) = LcdLoop d # lcd_writes es"
| "lcd_writes (e # es) = lcd_writes es"

text \<open>The first payload byte of every message handed to the CAN controller.\<close>

fun sent_bytes :: "event list \<Rightarrow> byte list" where
  "sent_bytes [] = []"
| "sent_bytes (SendMsgBuf i n b # es) = b # sent_bytes es"
| "sent_bytes (e # es) = sent_bytes es"

text \<open>
  The drive command of a distance and a setpoint: the value \<^verbatim>\<open>Move\<close> hands to
  \<^verbatim>\<open>DM.transferDAC\<close>. It is read off the trace of \<^verbatim>\<open>Move\<close> run from a state with
  an empty trace; \<open>Move_dac_writes\<close> below shows that it is the value written from
  every state.
\<close>

definition idle :: state where
  "idle = \<lparr>setpoint = 0, txdata0 = 0, m_currentFloor = 0, m_dist = 0,
            flagRecv = False, flagTx = False, trace = []\<rparr>"

definition DriveCommand :: "config \<Rightarrow> int \<Rightarrow> uint16_t \<Rightarrow> int" where
  "DriveCommand c distance sp = last (dac_writes (trace (Move c distance sp idle)))"

text \<open>
  The calls each part of \<^verbatim>\<open>loop\<close> makes, as lists: the serial log of a received
  message, all calls of \<^verbatim>\<open>receiveCAN\<close>, those of the transmit block for a payload
  byte, and those of \<^verbatim>\<open>Move\<close>.
\<close>

definition rx_log :: "rx_message \<Rightarrow> event list" where
  "rx_log rx =
     [SerialPrint (if RxID rx AND 0x80000000 = 0x80000000
                   then RxExtendedID (RxID rx AND 0x1FFFFFFF) (len rx)
                   else RxStandardID (RxID rx) (len rx))]
     @ (if RxID rx AND 0x40000000 = 0x40000000 then [SerialPrint RemoteRequestFrame]
        else map (\<lambda>i. SerialPrint (DataByte (rxdata rx i))) [0..<unat (len rx)])
     @ [SerialPrintln Empty]"

definition receive_events :: "config \<Rightarrow> rx_message \<Rightarrow> event list" where
  "receive_events c rx =
     rx_log rx @ [LcdSetCursor 0 0]
     @ (if rxdata rx 0 = FLOOR1 c then [LcdPrint ''Floor 1'']
        else if rxdata rx 0 = FLOOR2 c then [LcdPrint ''Floor 2'']
        else if rxdata rx 0 = FLOOR3 c then [LcdPrint ''Floor 3'']
        else [])"

definition transmit_events :: "config \<Rightarrow> bool \<Rightarrow> byte \<Rightarrow> event list" where
  "transmit_events c ok b =
     [SendMsgBuf (TxID c) (DLC c) b, SerialPrintln (if ok then TxData (TxID c) b else TxError)]"

definition motion_events :: "config \<Rightarrow> int \<Rightarrow> uint16_t \<Rightarrow> event list" where
  "motion_events c distance sp =
     (if MINHEIGHT c < distance \<and> distance < MAXHEIGHT c
      then [LcdLoop distance, TransferDAC (DriveCommand c distance sp)]
      else [TransferDAC 0])"

subsection \<open>The reference estimator\<close>

text \<open>
  The current-floor estimator as the specification words it: the floors in the priority
  order FLOOR1, FLOOR2, FLOOR3; a floor matches when the distance is within its
  setpoint plus or minus the tolerance and a margin; the first match gives the code,
  and no match gives the previous floor back.
\<close>

datatype FloorCode = Floor1 | Floor2 | Floor3

fun code_of :: "config \<Rightarrow> FloorCode \<Rightarrow> byte" where
  "code_of c Floor1 = FLOOR1 c"
| "code_of c Floor2 = FLOOR2 c"
| "code_of c Floor3 = FLOOR3 c"

fun setpoint_of :: "config \<Rightarrow> FloorCode \<Rightarrow> int" where
  "setpoint_of c Floor1 = FLOOR1_SP c"
| "setpoint_of c Floor2 = FLOOR2_SP c"
| "setpoint_of c Floor3 = FLOOR3_SP c"

fun label_of :: "FloorCode \<Rightarrow> string" where
  "label_of Floor1 = ''Floor 1''"
| "label_of Floor2 = ''Floor 2''"
| "label_of Floor3 = ''Floor 3''"

definition in_band :: "config \<Rightarrow> int \<Rightarrow> int \<Rightarrow> FloorCode \<Rightarrow> bool" where
  "in_band c margin distance f =
     (\<bar>distance - setpoint_of c f\<bar> \<le> SETPOINT_TOLERANCE c + margin)"

definition estimate :: "config \<Rightarrow> int \<Rightarrow> int \<Rightarrow> byte \<Rightarrow> byte" where
  "estimate c margin distance previousFloor =
     (case find (in_band c margin distance) [Floor1, Floor2, Floor3] of
        Some f \<Rightarrow> code_of c f
      | None \<Rightarrow> previousFloor)"

text \<open>
  Every floor's band lies strictly inside the valid band of the sensor (with the margin
  10 of \<^verbatim>\<open>checkCurrentFloor\<close>).
\<close>

definition bands_inside :: "config \<Rightarrow> bool" where
  "bands_inside c =
     (MINHEIGHT c < FLOOR1_SP c - (SETPOINT_TOLERANCE c + 10)
      \<and> FLOOR1_SP c + (SETPOINT_TOLERANCE c + 10) < MAXHEIGHT c
      \<and> MINHEIGHT c < FLOOR2_SP c - (SETPOINT_TOLERANCE c + 10)
      \<and> FLOOR2_SP c + (SETPOINT_TOLERANCE c + 10) < MAXHEIGHT c
      \<and> MINHEIGHT c < FLOOR3_SP c - (SETPOINT_TOLERANCE c + 10)
      \<and> FLOOR3_SP c + (SETPOINT_TOLERANCE c + 10) < MAXHEIGHT c)"

subsection \<open>Constants for the examples\<close>

text \<open>
  Two choices of the header's constants, to run the operations on. In the first every
  floor band lies inside the valid band of the sensor; in the second the lower end of
  the valid band is 90, above the lower end 85 of the first floor's band (and below the
  first floor's setpoint, as the comment in \<^verbatim>\<open>Move\<close> asks).
\<close>

definition example_config :: config where
  "example_config =
     \<lparr>FLOOR1 = 5, FLOOR2 = 6, FLOOR3 = 7,
      FLOOR1_SP = 100, FLOOR2_SP = 600, FLOOR3_SP = 1100,
      SETPOINT_TOLERANCE = 5, MINHEIGHT = 50, MAXHEIGHT = 1200,
      A = 5, DAMPENER = 1, diffMax = 1000, TxID = 0x101, DLC = 1\<rparr>"

definition tight_config :: config where
  "tight_config = example_config\<lparr>MINHEIGHT := 90\<rparr>"

text \<open>
  A received message and the answers of the collaborators for one pass: the byte
  \<open>b\<close> in every cell of the data buffer under the identifier \<open>i\<close>, a send that
  succeeds, and the distance \<open>d\<close>.
\<close>

definition message :: "32 word \<Rightarrow> byte \<Rightarrow> rx_message" where
  "message i b = \<lparr>RxID = i, len = 1, rxdata = (\<lambda>k. b)\<rparr>"

definition answers :: "rx_message \<Rightarrow> int \<Rightarrow> inputs" where
  "answers rx d = \<lparr>readMsgBuf = rx, sendMsgBuf_ok = True, getDistance = d\<rparr>"

section \<open>Properties\<close>

subsection \<open>Basic facts\<close>

lemma dac_writes_append: "dac_writes (xs @ ys) = dac_writes xs @ dac_writes ys"
  by (induction xs rule: dac_writes.induct) simp_all

lemma lcd_writes_append: "lcd_writes (xs @ ys) = lcd_writes xs @ lcd_writes ys"
  by (induction xs rule: lcd_writes.induct) simp_all

lemma sent_bytes_append: "sent_bytes (xs @ ys) = sent_bytes xs @ sent_bytes ys"
  by (induction xs rule: sent_bytes.induct) simp_all

lemma damped_0: "damped c 0 = 0"
  by (simp add: damped_def to_int_def)

text \<open>What one call of \<^verbatim>\<open>Move\<close> adds to the trace.\<close>

lemma Move_trace:
  "trace (Move c d sp s) = trace s @
     (if MINHEIGHT c < d \<and> d < MAXHEIGHT c then
        [LcdLoop d,
         TransferDAC
           (let x = damped c (if \<bar>d - uint sp\<bar> \<le> SETPOINT_TOLERANCE c then 0 else d - uint sp)
            in if x > 1023 then 1023 else x)]
      else [TransferDAC 0])"
  by (simp add: Move_def Let_def emit_def)

lemma DriveCommand_eq:
  "DriveCommand c d sp =
     (if MINHEIGHT c < d \<and> d < MAXHEIGHT c then
        (let x = damped c (if \<bar>d - uint sp\<bar> \<le> SETPOINT_TOLERANCE c then 0 else d - uint sp)
         in if x > 1023 then 1023 else x)
      else 0)"
  by (simp add: DriveCommand_def Move_trace idle_def Let_def)

text \<open>From every state, \<^verbatim>\<open>Move\<close> writes the drive command to the DAC, once.\<close>

lemma Move_dac_writes:
  "dac_writes (trace (Move c d sp s)) = dac_writes (trace s) @ [DriveCommand c d sp]"
  by (simp add: Move_trace DriveCommand_eq dac_writes_append Let_def)

subsection \<open>What each operation changes\<close>

lemma receiveCAN_fields:
  "txdata0 (receiveCAN c rx s) = txdata0 s"
  "m_currentFloor (receiveCAN c rx s) = m_currentFloor s"
  "m_dist (receiveCAN c rx s) = m_dist s"
  "flagRecv (receiveCAN c rx s) = flagRecv s"
  "flagTx (receiveCAN c rx s) = flagTx s"
  by (simp_all add: receiveCAN_def Let_def emit_def emits_def)

lemma receiveCAN_trace:
  "trace (receiveCAN c rx s) = trace s @ receive_events c rx"
  by (simp add: receiveCAN_def Let_def emit_def emits_def rx_log_def receive_events_def)

lemma receiveCAN_setpoint:
  "setpoint (receiveCAN c rx s) =
     (if rxdata rx 0 = FLOOR1 c then word_of_int (FLOOR1_SP c)
      else if rxdata rx 0 = FLOOR2 c then word_of_int (FLOOR2_SP c)
      else if rxdata rx 0 = FLOOR3 c then word_of_int (FLOOR3_SP c)
      else setpoint s)"
  by (simp add: receiveCAN_def Let_def emit_def emits_def)

lemma receiveCAN_flag_irrelevant:
  "receiveCAN c rx (s\<lparr>flagRecv := b\<rparr>) = (receiveCAN c rx s)\<lparr>flagRecv := b\<rparr>"
  by (simp add: receiveCAN_def Let_def emit_def emits_def)

lemma transmitCAN_trace:
  "trace (transmitCAN c ok s) = trace s @ transmit_events c ok (txdata0 s)"
  by (simp add: transmitCAN_def Let_def emit_def transmit_events_def)

lemma transmitCAN_fields:
  "setpoint (transmitCAN c ok s) = setpoint s"
  "txdata0 (transmitCAN c ok s) = txdata0 s"
  "m_currentFloor (transmitCAN c ok s) = m_currentFloor s"
  "m_dist (transmitCAN c ok s) = m_dist s"
  "flagRecv (transmitCAN c ok s) = flagRecv s"
  "flagTx (transmitCAN c ok s) = flagTx s"
  by (simp_all add: transmitCAN_def Let_def emit_def)

lemma Move_fields:
  "setpoint (Move c d sp s) = setpoint s"
  "txdata0 (Move c d sp s) = txdata0 s"
  "m_currentFloor (Move c d sp s) = m_currentFloor s"
  "m_dist (Move c d sp s) = d"
  "flagRecv (Move c d sp s) = flagRecv s"
  "flagTx (Move c d sp s) = flagTx s"
  by (simp_all add: Move_def Let_def emit_def)

lemma Move_trace_events:
  "trace (Move c d sp s) = trace s @ motion_events c d sp"
  by (simp add: Move_trace motion_events_def DriveCommand_eq)

lemma checkCurrentFloor_fields:
  "setpoint (checkCurrentFloor c s) = setpoint s"
  "txdata0 (checkCurrentFloor c s) = txdata0 s"
  "m_dist (checkCurrentFloor c s) = m_dist s"
  "flagRecv (checkCurrentFloor c s) = flagRecv s"
  "flagTx (checkCurrentFloor c s) = flagTx s"
  "trace (checkCurrentFloor c s) = trace s"
  by (simp_all add: checkCurrentFloor_def)

lemma checkCurrentFloor_estimate:
  "m_currentFloor (checkCurrentFloor c s) = estimate c 10 (m_dist s) (m_currentFloor s)"
  by (auto simp: checkCurrentFloor_def estimate_def in_band_def)

lemma loop_setpoint:
  "setpoint (loop c inp s) =
     (if flagRecv s then setpoint (receiveCAN c (readMsgBuf inp) s) else setpoint s)"
  by (simp add: loop_def Let_def checkCurrentFloor_fields Move_fields transmitCAN_fields
      receiveCAN_fields setTxdata_def receiveCAN_setpoint getSetpoint_def)

lemma loop_trace:
  "trace (loop c inp s) = trace s
     @ (if flagRecv s then receive_events c (readMsgBuf inp) else [])
     @ (if flagTx s then transmit_events c (sendMsgBuf_ok inp) (m_currentFloor s) else [])
     @ motion_events c (getDistance inp) (setpoint (loop c inp s))"
  by (simp add: loop_setpoint)
     (simp add: loop_def Let_def checkCurrentFloor_fields Move_trace_events transmitCAN_trace
      transmitCAN_fields receiveCAN_fields receiveCAN_trace setTxdata_def getSetpoint_def
      receiveCAN_setpoint)

lemma loop_m_currentFloor:
  "m_currentFloor (loop c inp s) = estimate c 10 (getDistance inp) (m_currentFloor s)"
  by (simp add: loop_def Let_def checkCurrentFloor_estimate Move_fields transmitCAN_fields
      receiveCAN_fields setTxdata_def)

lemma loop_flags:
  "flagRecv (loop c inp s) = False" "flagTx (loop c inp s) = False"
  by (simp_all add: loop_def Let_def checkCurrentFloor_fields Move_fields transmitCAN_fields
      receiveCAN_fields setTxdata_def)

subsection \<open>What each part of a pass adds to the observations\<close>

lemma lcd_writes_rx_log: "lcd_writes (rx_log rx) = []"
proof -
  have "lcd_writes (map (\<lambda>i. SerialPrint (DataByte (f i))) xs) = []"
    for f :: "nat \<Rightarrow> byte" and xs
    by (induction xs) simp_all
  then show ?thesis
    by (simp add: rx_log_def lcd_writes_append)
qed

lemma dac_writes_rx_log: "dac_writes (rx_log rx) = []"
proof -
  have "dac_writes (map (\<lambda>i. SerialPrint (DataByte (f i))) xs) = []"
    for f :: "nat \<Rightarrow> byte" and xs
    by (induction xs) simp_all
  then show ?thesis
    by (simp add: rx_log_def dac_writes_append)
qed

lemma sent_bytes_rx_log: "sent_bytes (rx_log rx) = []"
proof -
  have "sent_bytes (map (\<lambda>i. SerialPrint (DataByte (f i))) xs) = []"
    for f :: "nat \<Rightarrow> byte" and xs
    by (induction xs) simp_all
  then show ?thesis
    by (simp add: rx_log_def sent_bytes_append)
qed

lemma receive_events_obs:
  "dac_writes (receive_events c rx) = []"
  "sent_bytes (receive_events c rx) = []"
  by (simp_all add: receive_events_def dac_writes_append sent_bytes_append
      dac_writes_rx_log sent_bytes_rx_log)

lemma lcd_writes_receive_events:
  "lcd_writes (receive_events c rx) =
     (if rxdata rx 0 = FLOOR1 c then [LcdPrint ''Floor 1'']
      else if rxdata rx 0 = FLOOR2 c then [LcdPrint ''Floor 2'']
      else if rxdata rx 0 = FLOOR3 c then [LcdPrint ''Floor 3'']
      else [])"
  by (simp add: receive_events_def lcd_writes_append lcd_writes_rx_log)

lemma transmit_events_obs:
  "dac_writes (transmit_events c ok b) = []"
  "sent_bytes (transmit_events c ok b) = [b]"
  "lcd_writes (transmit_events c ok b) = []"
  by (simp_all add: transmit_events_def)

lemma motion_events_obs:
  "dac_writes (motion_events c d sp) = [DriveCommand c d sp]"
  "sent_bytes (motion_events c d sp) = []"
  by (simp_all add: motion_events_def DriveCommand_eq)

lemma loop_dac_writes:
  "dac_writes (trace (loop c inp s)) =
     dac_writes (trace s) @ [DriveCommand c (getDistance inp) (setpoint (loop c inp s))]"
  by (simp add: loop_trace dac_writes_append receive_events_obs transmit_events_obs
      motion_events_obs)


subsection \<open>The damping and the cap\<close>

lemma to_int_minus: "to_int (- r) = - to_int r"
  by (auto simp: to_int_def ceiling_minus floor_minus)

text \<open>The damping is an odd function of the difference.\<close>

lemma damped_minus: "damped c (- x) = - damped c x"
  using to_int_minus [of "of_int x * A c * exp ((- 1) * (DAMPENER c / diffMax c) * of_int \<bar>x\<bar>)"]
  by (simp add: damped_def Let_def)

text \<open>The cap of \<^verbatim>\<open>Move\<close> bounds the drive command from above.\<close>

lemma DriveCommand_upper: "DriveCommand c d sp \<le> 1023"
  by (simp add: DriveCommand_eq Let_def)

text \<open>
  There is no cap from below: whatever the constants, if the cap is needed at a
  difference \<open>x\<close>, then at the difference \<open>- x\<close> the drive command is below \<open>- 1023\<close>.
\<close>

lemma cap_mirrored:
  assumes "MINHEIGHT c < d" and "d < MAXHEIGHT c"
    and "\<not> \<bar>x\<bar> \<le> SETPOINT_TOLERANCE c" and "1023 < damped c x"
    and "d - uint sp = - x"
  shows "DriveCommand c d sp < - 1023"
  using assms damped_minus [of c x] by (simp add: DriveCommand_eq Let_def)

lemma exp_minus_half_ge: "(1/2 :: real) \<le> exp (- (1/2))"
  using exp_ge_add_one_self [of "- (1/2) :: real"] by simp

text \<open>
  With the example constants the damped value of the difference 500 is
  \<open>2500 * exp (- 1/2)\<close> without its fraction, about 1516.
\<close>

lemma damped_example_500: "1250 \<le> damped example_config 500"
proof -
  have "(1250 :: real) \<le> 2500 * exp (- (1/2))"
    using exp_minus_half_ge by simp
  then have "(1250 :: int) \<le> \<lfloor>2500 * exp (- (1/2)) :: real\<rfloor>"
    by (simp add: le_floor_iff)
  moreover have "damped example_config 500 = \<lfloor>2500 * exp (- (1/2)) :: real\<rfloor>"
    by (simp add: damped_def example_config_def to_int_def)
  ultimately show ?thesis by simp
qed

subsection \<open>The receive path and the floor bands\<close>

lemma receiveCAN_state:
  "receiveCAN c rx s =
     s\<lparr>setpoint := setpoint (receiveCAN c rx s), trace := trace s @ receive_events c rx\<rparr>"
  by (simp add: receiveCAN_def Let_def emit_def emits_def rx_log_def receive_events_def)

lemma estimate_out_of_bands:
  assumes "bands_inside c" and "d \<le> MINHEIGHT c \<or> MAXHEIGHT c \<le> d"
  shows "estimate c 10 d p = p"
  using assms by (auto simp: estimate_def in_band_def bands_inside_def)

subsection \<open>Invariants of the reachable states\<close>





section \<open>The claims\<close>

subsection \<open>The stop command\<close>

text \<open>
  C5. For every setpoint, the drive command is 0 whenever the measured distance is out
  of range (at or below \<open>MINHEIGHT\<close>, at or above \<open>MAXHEIGHT\<close>; so for
  \<open>MINHEIGHT - 1\<close>) and whenever the distance is within \<open>SETPOINT_TOLERANCE\<close> of the
  setpoint. \<^verbatim>\<open>Move\<close> is a total function: in both cases it returns, having written 0
  to the DAC. In the dead band the zeroed difference still goes through the damping,
  where the code divides by \<open>diffMax\<close> in floating point: that case is stated for
  \<open>diffMax\<close> other than 0.
\<close>

theorem C5_stop_command:
  assumes "distance \<le> MINHEIGHT c \<or> MAXHEIGHT c \<le> distance
           \<or> (\<bar>distance - uint sp\<bar> \<le> SETPOINT_TOLERANCE c \<and> diffMax c \<noteq> 0)"
  shows "DriveCommand c distance sp = 0
         \<and> dac_writes (trace (Move c distance sp s)) = dac_writes (trace s) @ [0]"
proof -
  have "DriveCommand c distance sp = 0"
    using assms by (auto simp: DriveCommand_eq damped_0)
  then show ?thesis
    by (simp add: Move_dac_writes)
qed

theorem C5_stop_command_witness:
  "((49::int) \<le> MINHEIGHT example_config \<and> DriveCommand example_config 49 600 = 0)
   \<and> (\<bar>(603::int) - uint (600 :: uint16_t)\<bar> \<le> SETPOINT_TOLERANCE example_config
        \<and> diffMax example_config \<noteq> 0
        \<and> DriveCommand example_config 603 600 = 0)"
  using C5_stop_command [of 49 example_config 600] C5_stop_command [of 603 example_config 600]
  by (simp add: example_config_def)

text \<open>
  C10. A measured distance equal to \<open>MINHEIGHT\<close> or to \<open>MAXHEIGHT\<close> is out of range,
  for every setpoint: the test of \<^verbatim>\<open>Move\<close> is strict at both ends. The only call
  \<^verbatim>\<open>Move\<close> makes is the write of 0 to the DAC, so the drive command is 0 and the
  distance is not written to the display.
\<close>

theorem C10_boundary_out_of_range:
  assumes "distance = MINHEIGHT c \<or> distance = MAXHEIGHT c"
  shows "DriveCommand c distance sp = 0
         \<and> trace (Move c distance sp s) = trace s @ [TransferDAC 0]
         \<and> lcd_writes (trace (Move c distance sp s)) = lcd_writes (trace s)"
  using assms by (auto simp: DriveCommand_eq Move_trace lcd_writes_append)

theorem C10_boundary_out_of_range_witness:
  "DriveCommand example_config (MINHEIGHT example_config) 600 = 0
   \<and> DriveCommand example_config (MAXHEIGHT example_config) 600 = 0
   \<and> trace (Move example_config 50 600 idle) = [TransferDAC 0]
   \<and> trace (Move example_config 1200 600 idle) = [TransferDAC 0]"
  using C10_boundary_out_of_range [of "MINHEIGHT example_config" example_config 600 idle]
    C10_boundary_out_of_range [of "MAXHEIGHT example_config" example_config 600 idle]
  by (simp add: example_config_def idle_def)

subsection \<open>The receive path\<close>

text \<open>
  C7. A received payload byte that is none of the three floor codes changes nothing:
  after \<^verbatim>\<open>receiveCAN\<close> the setpoint, what was written on the display and the current
  floor are as before.
\<close>

theorem C7_unknown_command_ignored:
  assumes "rxdata rx 0 \<noteq> FLOOR1 c" and "rxdata rx 0 \<noteq> FLOOR2 c" and "rxdata rx 0 \<noteq> FLOOR3 c"
  shows "setpoint (receiveCAN c rx s) = setpoint s
         \<and> lcd_writes (trace (receiveCAN c rx s)) = lcd_writes (trace s)
         \<and> m_currentFloor (receiveCAN c rx s) = m_currentFloor s"
  using assms
  by (simp add: receiveCAN_setpoint receiveCAN_trace receiveCAN_fields lcd_writes_append
      lcd_writes_receive_events)

theorem C7_unknown_command_ignored_witness:
  "rxdata (message 0x101 0xFF) 0 \<noteq> FLOOR1 example_config
   \<and> rxdata (message 0x101 0xFF) 0 \<noteq> FLOOR2 example_config
   \<and> rxdata (message 0x101 0xFF) 0 \<noteq> FLOOR3 example_config
   \<and> setpoint (receiveCAN example_config (message 0x101 0xFF)
        (ElevatorController_setup example_config idle)) = 100
   \<and> lcd_writes (trace (receiveCAN example_config (message 0x101 0xFF)
        (ElevatorController_setup example_config idle))) = [LcdPrint ''Floor 1'']
   \<and> m_currentFloor (receiveCAN example_config (message 0x101 0xFF)
        (ElevatorController_setup example_config idle)) = 0"
  using C7_unknown_command_ignored [of "message 0x101 0xFF" example_config
      "ElevatorController_setup example_config idle"]
  by (simp add: message_def example_config_def ElevatorController_setup_def idle_def
      setTxdata_def setSetpoint_def emit_def)

text \<open>
  C6. When the floor codes are three different bytes and the received payload byte is
  the code of a floor, \<^verbatim>\<open>receiveCAN\<close> stores that floor's setpoint and writes that
  floor's label on the display (payload \<open>FLOOR2\<close>: setpoint \<open>FLOOR2_SP\<close>, label
  "Floor 2"). When the receive is serviced in a pass of \<^verbatim>\<open>loop\<close>, the motion step of
  the same pass takes its difference against the new setpoint: inside the valid band
  the value written to the DAC is the measured distance minus the new setpoint, zeroed
  in the dead band, damped and cut at 1023; outside the band it is 0.
\<close>

theorem C6_floor_command:
  assumes "distinct [FLOOR1 c, FLOOR2 c, FLOOR3 c]"
    and "rxdata (readMsgBuf inp) 0 = code_of c f"
  shows "setpoint (receiveCAN c (readMsgBuf inp) s) = word_of_int (setpoint_of c f)
         \<and> lcd_writes (trace (receiveCAN c (readMsgBuf inp) s))
             = lcd_writes (trace s) @ [LcdPrint (label_of f)]
         \<and> (flagRecv s \<longrightarrow>
              setpoint (loop c inp s) = word_of_int (setpoint_of c f)
              \<and> dac_writes (trace (loop c inp s))
                  = dac_writes (trace s)
                    @ [if MINHEIGHT c < getDistance inp \<and> getDistance inp < MAXHEIGHT c then
                         (let difference =
                                getDistance inp - uint (word_of_int (setpoint_of c f) :: uint16_t);
                              difference =
                                (if \<bar>difference\<bar> \<le> SETPOINT_TOLERANCE c then 0 else difference);
                              difference = damped c difference
                          in if difference > 1023 then 1023 else difference)
                       else 0]
              \<and> dac_writes (trace (loop c inp s))
                  = dac_writes (trace s)
                    @ [DriveCommand c (getDistance inp) (word_of_int (setpoint_of c f))])"
proof -
  have sp: "setpoint (receiveCAN c (readMsgBuf inp) s) = word_of_int (setpoint_of c f)"
    using assms by (cases f) (auto simp: receiveCAN_setpoint)
  have lcd: "lcd_writes (trace (receiveCAN c (readMsgBuf inp) s))
      = lcd_writes (trace s) @ [LcdPrint (label_of f)]"
    using assms
    by (cases f) (auto simp: receiveCAN_trace lcd_writes_append lcd_writes_receive_events)
  have "flagRecv s \<longrightarrow> setpoint (loop c inp s) = word_of_int (setpoint_of c f)"
    using sp by (simp add: loop_setpoint)
  then show ?thesis
    using sp lcd by (simp add: loop_dac_writes DriveCommand_eq Let_def)
qed

text \<open>
  With the example constants, after \<^verbatim>\<open>setup\<close> (setpoint 100) a pending message with
  the code of floor 2 is serviced: with the car at 300 the damped difference is that of
  \<open>300 - 600\<close>, and with the car at 598 the difference to the new setpoint 600 is in the
  dead band and 0 is written (against the old setpoint 100 it would not be).
\<close>

theorem C6_floor_command_witness:
  "distinct [FLOOR1 example_config, FLOOR2 example_config, FLOOR3 example_config]
   \<and> rxdata (readMsgBuf (answers (message 0x101 6) 300)) 0 = code_of example_config Floor2
   \<and> setpoint (loop example_config (answers (message 0x101 6) 300)
        (signalReceivePending (ElevatorController_setup example_config idle))) = 600
   \<and> lcd_writes (trace (receiveCAN example_config (message 0x101 6)
        (signalReceivePending (ElevatorController_setup example_config idle))))
       = [LcdPrint ''Floor 1'', LcdPrint ''Floor 2'']
   \<and> dac_writes (trace (loop example_config (answers (message 0x101 6) 300)
        (signalReceivePending (ElevatorController_setup example_config idle))))
       = [if 1023 < damped example_config (- 300) then 1023
          else damped example_config (- 300)]
   \<and> dac_writes (trace (loop example_config (answers (message 0x101 6) 598)
        (signalReceivePending (ElevatorController_setup example_config idle))))
       = [0]"
proof -
  have fields:
    "FLOOR1 example_config = 5" "FLOOR2 example_config = 6" "FLOOR3 example_config = 7"
    "FLOOR2_SP example_config = 600" "SETPOINT_TOLERANCE example_config = 5"
    "MINHEIGHT example_config = 50" "MAXHEIGHT example_config = 1200"
    by (simp_all add: example_config_def)
  show ?thesis
    using C6_floor_command [of example_config "answers (message 0x101 6) 300" Floor2
        "signalReceivePending (ElevatorController_setup example_config idle)"]
      C6_floor_command [of example_config "answers (message 0x101 6) 598" Floor2
        "signalReceivePending (ElevatorController_setup example_config idle)"]
    by (simp add: fields damped_0 message_def answers_def ElevatorController_setup_def
        idle_def setTxdata_def setSetpoint_def emit_def signalReceivePending_def Let_def)
qed

text \<open>
  C2, as the code has it. \<^verbatim>\<open>receiveCAN\<close> consults the remote-request marker for the
  serial log only. For a message that carries the marker: when the first byte of the
  data buffer is none of the three floor codes, nothing but the trace changes (the log
  lines and the cursor call are added); and whatever the buffer holds, the setpoint, the
  display and every other member end as they do for the same buffer under any other
  identifier, with the marker or without it.
\<close>

theorem C2_remote_frame:
  assumes "RxID rx AND 0x40000000 = 0x40000000"
  shows "(rxdata rx 0 \<notin> {FLOOR1 c, FLOOR2 c, FLOOR3 c} \<longrightarrow>
            receiveCAN c rx s = s\<lparr>trace := trace s @ rx_log rx @ [LcdSetCursor 0 0]\<rparr>)
         \<and> setpoint (receiveCAN c rx s) = setpoint (receiveCAN c (rx\<lparr>RxID := i\<rparr>) s)
         \<and> lcd_writes (trace (receiveCAN c rx s))
             = lcd_writes (trace (receiveCAN c (rx\<lparr>RxID := i\<rparr>) s))
         \<and> (receiveCAN c rx s)\<lparr>trace := []\<rparr>
             = (receiveCAN c (rx\<lparr>RxID := i\<rparr>) s)\<lparr>trace := []\<rparr>"
proof -
  have "rxdata rx 0 \<notin> {FLOOR1 c, FLOOR2 c, FLOOR3 c} \<longrightarrow>
            receiveCAN c rx s = s\<lparr>trace := trace s @ rx_log rx @ [LcdSetCursor 0 0]\<rparr>"
    by (subst receiveCAN_state) (simp add: receiveCAN_setpoint receive_events_def)
  moreover have "(receiveCAN c rx s)\<lparr>trace := []\<rparr>
      = (receiveCAN c (rx\<lparr>RxID := i\<rparr>) s)\<lparr>trace := []\<rparr>"
    by (subst receiveCAN_state, subst (2) receiveCAN_state) (simp add: receiveCAN_setpoint)
  ultimately show ?thesis
    by (simp add: receiveCAN_setpoint receiveCAN_trace lcd_writes_append
        lcd_writes_receive_events)
qed

theorem C2_remote_frame_witness:
  "RxID (message 0x40000101 0xFF) AND 0x40000000 = 0x40000000
   \<and> setpoint (receiveCAN example_config (message 0x40000101 0xFF)
        (ElevatorController_setup example_config idle)) = 100"
  using C2_remote_frame [where rx = "message 0x40000101 0xFF" and c = example_config
      and s = "ElevatorController_setup example_config idle" and i = "0x101"]
  by (simp add: message_def example_config_def ElevatorController_setup_def idle_def
      setTxdata_def setSetpoint_def emit_def)

text \<open>
  C2 as stated fails: after \<^verbatim>\<open>setup\<close> the setpoint is that of floor 1, 100 with the
  example constants; a message with the remote-request marker and the code of floor 2
  in the first byte of the data buffer is logged as a remote request frame, and the
  setpoint becomes that of floor 2, 600.
\<close>

theorem C2_remote_frame_sets_setpoint:
  "RxID (message 0x40000101 6) AND 0x40000000 = 0x40000000
   \<and> setpoint (ElevatorController_setup example_config idle) = 100
   \<and> setpoint (receiveCAN example_config (message 0x40000101 6)
        (ElevatorController_setup example_config idle)) = 600
   \<and> rx_log (message 0x40000101 6)
       = [SerialPrint (RxStandardID 0x40000101 1), SerialPrint RemoteRequestFrame,
          SerialPrintln Empty]"
  by (simp add: receiveCAN_setpoint rx_log_def message_def example_config_def
      ElevatorController_setup_def idle_def setTxdata_def setSetpoint_def emit_def)

subsection \<open>The current floor\<close>

text \<open>
  C4, as the code has it. \<^verbatim>\<open>checkCurrentFloor\<close> has no test of the valid band: it
  classifies the distance \<^verbatim>\<open>Move\<close> has just stored by the floor bands alone. When
  every floor band lies strictly inside the valid band, a pass whose measured distance
  is out of range leaves the current floor as it was.
\<close>

theorem C4_out_of_range_sample:
  assumes "bands_inside c"
    and "getDistance inp \<le> MINHEIGHT c \<or> MAXHEIGHT c \<le> getDistance inp"
  shows "m_currentFloor (loop c inp s) = m_currentFloor s
         \<and> m_currentFloor (checkCurrentFloor c (Move c (getDistance inp) sp s))
             = m_currentFloor s"
  using estimate_out_of_bands [OF assms]
  by (simp add: loop_m_currentFloor checkCurrentFloor_estimate Move_fields)

theorem C4_out_of_range_sample_witness:
  "bands_inside example_config
   \<and> getDistance (answers (message 0x101 0) 49) \<le> MINHEIGHT example_config
   \<and> m_currentFloor (loop example_config (answers (message 0x101 0) 49)
        (ElevatorController_setup example_config idle)) = 0"
  using C4_out_of_range_sample [of example_config "answers (message 0x101 0) 49"
      "ElevatorController_setup example_config idle"]
  by (simp add: bands_inside_def answers_def example_config_def ElevatorController_setup_def
      idle_def setTxdata_def setSetpoint_def emit_def)

text \<open>
  C4 as stated fails where a floor band reaches out of the valid band. With the second
  set of constants (the first floor's setpoint 100 above \<open>MINHEIGHT = 90\<close>, its band
  from 85 to 115) the distance 88 is out of range, \<^verbatim>\<open>Move\<close> writes 0 to the DAC, and
  the pass changes the current floor from 0 to the code of floor 1.
\<close>

theorem C4_out_of_range_reclassifies:
  "FLOOR1_SP tight_config > MINHEIGHT tight_config
   \<and> (88 :: int) \<le> MINHEIGHT tight_config
   \<and> m_currentFloor (ElevatorController_setup tight_config idle) = 0
   \<and> m_currentFloor (loop tight_config (answers (message 0x101 0) 88)
        (ElevatorController_setup tight_config idle)) = FLOOR1 tight_config
   \<and> FLOOR1 tight_config = 5
   \<and> dac_writes (trace (loop tight_config (answers (message 0x101 0) 88)
        (ElevatorController_setup tight_config idle))) = [0]"
  by (simp add: loop_m_currentFloor loop_dac_writes loop_setpoint DriveCommand_eq)
     (simp add: estimate_def in_band_def answers_def tight_config_def example_config_def
      ElevatorController_setup_def idle_def setTxdata_def setSetpoint_def emit_def)

text \<open>
  C8. \<^verbatim>\<open>checkCurrentFloor\<close> is the reference estimator with the margin 10: it changes
  the current floor only, to the code of the first floor, in the order FLOOR1, FLOOR2,
  FLOOR3, whose band holds the distance, and to the previous floor (whatever it is)
  when no band does.
\<close>

theorem C8_estimator_refines:
  "checkCurrentFloor c s = s\<lparr>m_currentFloor := estimate c 10 (m_dist s) (m_currentFloor s)\<rparr>"
  by (auto simp: checkCurrentFloor_def estimate_def in_band_def)

subsection \<open>The range of the drive command\<close>

text \<open>
  C1 asks that the drive command never exceeds 1023 in absolute value. \<^verbatim>\<open>Move\<close>
  cuts the damped difference at 1023 from above only (\<open>DriveCommand_upper\<close>), and
  nothing bounds it from below (\<open>cap_mirrored\<close>). With the example constants, the car
  at 600 (floor 2) and the setpoint 1100 (floor 3 commanded in the same pass), the
  difference is \<open>- 500\<close> and the value written to the DAC is below \<open>- 1023\<close>.
\<close>

theorem C1_lower_bound_broken:
  "DriveCommand example_config 600 1100 < - 1023
   \<and> dac_writes (trace (loop example_config (answers (message 0x101 7) 600)
        (signalReceivePending (ElevatorController_setup example_config idle))))
       = [DriveCommand example_config 600 1100]"
proof -
  have "damped example_config (- 500) \<le> - 1250"
    using damped_example_500 by (simp add: damped_minus)
  then have "DriveCommand example_config 600 1100 < - 1023"
    by (simp add: DriveCommand_eq example_config_def Let_def)
  moreover have "dac_writes (trace (loop example_config (answers (message 0x101 7) 600)
        (signalReceivePending (ElevatorController_setup example_config idle))))
       = [DriveCommand example_config 600 1100]"
    by (simp add: loop_dac_writes loop_setpoint receiveCAN_setpoint)
      (simp add: message_def answers_def example_config_def ElevatorController_setup_def
        idle_def setTxdata_def setSetpoint_def emit_def signalReceivePending_def)
  ultimately show ?thesis by simp
qed

subsection \<open>The order of a pass\<close>

text \<open>
  C9. In one pass of \<^verbatim>\<open>loop\<close> the calls to the collaborators are those of the receive
  (when pending), then those of the transmit (when pending, with the current floor as
  it was before the pass), then those of the motion step; the setpoint the motion step
  uses is the one the receive of this pass left, and the current floor is estimated
  last, from the distance the motion step has just measured.
\<close>

theorem C9_phase_order:
  "trace (loop c inp s) = trace s
     @ (if flagRecv s then receive_events c (readMsgBuf inp) else [])
     @ (if flagTx s then transmit_events c (sendMsgBuf_ok inp) (m_currentFloor s) else [])
     @ motion_events c (getDistance inp) (setpoint (loop c inp s))
   \<and> setpoint (loop c inp s)
       = (if flagRecv s then setpoint (receiveCAN c (readMsgBuf inp) s) else setpoint s)
   \<and> dac_writes (trace (loop c inp s))
       = dac_writes (trace s) @ [DriveCommand c (getDistance inp) (setpoint (loop c inp s))]
   \<and> m_dist (loop c inp s) = getDistance inp
   \<and> m_currentFloor (loop c inp s) = estimate c 10 (getDistance inp) (m_currentFloor s)"
proof -
  have "m_dist (loop c inp s) = getDistance inp"
    by (simp add: loop_def Let_def checkCurrentFloor_fields Move_fields)
  then show ?thesis
    using loop_trace [of c inp s] loop_setpoint [of c inp s] loop_dac_writes [of c inp s]
      loop_m_currentFloor [of c inp s]
    by simp
qed

subsection \<open>The transmit path\<close>




end
